theory Spec2Isabelle
  imports
    Complex_Main
    "HOL-Library.Char_ord"
    "HOL-Library.List_Lexorder"
    "HOL-Library.Word"
begin

unbundle bit_operations_syntax

section \<open>Strings and the sanitizer patterns\<close>

text \<open>
  A Go \<^verbatim>\<open>string\<close> is a sequence of bytes, here a \<^typ>\<open>string\<close> whose characters are
  the bytes. The three patterns of the repository are negated bracket expressions over
  ASCII characters only, followed by \<^verbatim>\<open>+\<close>. Every byte of a multi-byte UTF-8 sequence
  and every byte of an invalid sequence is at least \<^verbatim>\<open>0x80\<close>, and the rune it belongs
  to is outside every ASCII class, so a maximal run of matching runes is exactly a maximal
  run of bytes outside the class: the patterns are modelled by the predicate "this byte
  matches the bracket expression".
\<close>

definition lower :: "char \<Rightarrow> bool" where
  "lower c = (CHR ''a'' \<le> c \<and> c \<le> CHR ''z'')"

definition upper :: "char \<Rightarrow> bool" where
  "upper c = (CHR ''A'' \<le> c \<and> c \<le> CHR ''Z'')"

definition digit :: "char \<Rightarrow> bool" where
  "digit c = (CHR ''0'' \<le> c \<and> c \<le> CHR ''9'')"

text \<open>The Perl classes of Go's regexp syntax are ASCII only:
  \<^verbatim>\<open>\w\<close> is \<^verbatim>\<open>[0-9A-Za-z_]\<close>, \<^verbatim>\<open>\d\<close> is \<^verbatim>\<open>[0-9]\<close> and
  \<^verbatim>\<open>\s\<close> is \<^verbatim>\<open>[\t\n\f\r ]\<close>.\<close>

definition perl_w :: "char \<Rightarrow> bool" where
  "perl_w c = (digit c \<or> upper c \<or> lower c \<or> c = CHR ''_'')"

definition perl_d :: "char \<Rightarrow> bool" where
  "perl_d c = digit c"

definition perl_s :: "char \<Rightarrow> bool" where
  "perl_s c = (c = CHR 0x09 \<or> c = CHR 0x0A \<or> c = CHR 0x0C \<or> c = CHR 0x0D \<or> c = CHR '' '')"

text \<open>\<^verbatim>\<open>keyRegex = regexp.MustCompile(`[^a-zA-Z0-9_/.-]+`)\<close> (both source files).\<close>

definition keyRegex :: "char \<Rightarrow> bool" where
  "keyRegex c = (\<not> (lower c \<or> upper c \<or> digit c \<or> c = CHR ''_'' \<or> c = CHR ''/''
                    \<or> c = CHR ''.'' \<or> c = CHR ''-''))"

text \<open>\<^verbatim>\<open>valueRegex = regexp.MustCompile(`[^\w\d\s_:/@\.{}\[\]$-]+`)\<close> (metrics.go).\<close>

definition valueRegex :: "char \<Rightarrow> bool" where
  "valueRegex c = (\<not> (perl_w c \<or> perl_d c \<or> perl_s c \<or> c = CHR ''_'' \<or> c = CHR '':''
                      \<or> c = CHR ''/'' \<or> c = CHR ''@'' \<or> c = CHR ''.'' \<or> c = CHR ''{''
                      \<or> c = CHR ''}'' \<or> c = CHR ''['' \<or> c = CHR '']'' \<or> c = CHR ''$''
                      \<or> c = CHR ''-''))"

text \<open>\<^verbatim>\<open>regexp.MustCompile(`[^\w\d_:/@\.{}\[\]$-]+`)\<close> (sanitizeValue of part_000:
  no \<^verbatim>\<open>\s\<close>).\<close>

definition valueRegex_p0 :: "char \<Rightarrow> bool" where
  "valueRegex_p0 c = (\<not> (perl_w c \<or> perl_d c \<or> c = CHR ''_'' \<or> c = CHR '':''
                      \<or> c = CHR ''/'' \<or> c = CHR ''@'' \<or> c = CHR ''.'' \<or> c = CHR ''{''
                      \<or> c = CHR ''}'' \<or> c = CHR ''['' \<or> c = CHR '']'' \<or> c = CHR ''$''
                      \<or> c = CHR ''-''))"

text \<open>\<^verbatim>\<open>unitRegex = regexp.MustCompile(`[^a-z]+`)\<close> (metrics.go).\<close>

definition unitRegex :: "char \<Rightarrow> bool" where
  "unitRegex c = (\<not> lower c)"

text \<open>
  \<^verbatim>\<open>re.ReplaceAllString(src, repl)\<close> for a pattern \<^verbatim>\<open>[...]+\<close>: the matches are the
  maximal runs of matching characters, left to right, and each run is replaced by
  \<^verbatim>\<open>repl\<close> (none of the replacements of the repository contains \<^verbatim>\<open>$\<close>, so there
  is no expansion). The flag says whether the previous character belonged to a run.
\<close>

fun replaceRuns :: "(char \<Rightarrow> bool) \<Rightarrow> string \<Rightarrow> bool \<Rightarrow> string \<Rightarrow> string" where
  "replaceRuns re repl inrun [] = []"
| "replaceRuns re repl inrun (c # cs) =
     (if re c then (if inrun then [] else repl) @ replaceRuns re repl True cs
      else c # replaceRuns re repl False cs)"

definition ReplaceAllString :: "(char \<Rightarrow> bool) \<Rightarrow> string \<Rightarrow> string \<Rightarrow> string" where
  "ReplaceAllString re src repl = replaceRuns re repl False src"

subsection \<open>metrics.go\<close>

definition sanitizeKey :: "string \<Rightarrow> string" where
  "sanitizeKey s = ReplaceAllString keyRegex s ''_''"

definition sanitizeValue :: "string \<Rightarrow> string" where
  "sanitizeValue s = ReplaceAllString valueRegex s ''''"

subsection \<open>part_000\<close>

definition sanitizeKey_p0 :: "string \<Rightarrow> string" where
  "sanitizeKey_p0 s = ReplaceAllString keyRegex s ''_''"

definition sanitizeValue_p0 :: "string \<Rightarrow> string" where
  "sanitizeValue_p0 s = ReplaceAllString valueRegex_p0 s ''_''"

section \<open>Units (metrics.go)\<close>

record MetricUnit =
  unit :: string

definition toString :: "MetricUnit \<Rightarrow> string" where
  "toString m = unit m"

definition CustomUnit :: "string \<Rightarrow> MetricUnit" where
  "CustomUnit u = \<lparr> unit = ReplaceAllString unitRegex u '''' \<rparr>"

section \<open>The identity shared by every metric (metrics.go)\<close>

text \<open>
  \<^verbatim>\<open>map[string]string\<close>: the entries of the map, listed in the order in which one
  \<^verbatim>\<open>range\<close> loop happens to visit them (Go leaves that order unspecified). The keys of a
  map are distinct. \<^verbatim>\<open>tags[key]\<close> is the value stored, the empty string for a missing
  key.
\<close>

type_synonym tagmap = "(string \<times> string) list"

definition index :: "tagmap \<Rightarrow> string \<Rightarrow> string" where
  "index tags k = (case map_of tags k of Some v \<Rightarrow> v | None \<Rightarrow> [])"

record abstractMetric =
  key :: string
  unit_am :: MetricUnit
  tags :: tagmap
  timestamp :: "64 word"

definition GetTags :: "'a abstractMetric_scheme \<Rightarrow> tagmap" where
  "GetTags am = tags am"

definition GetKey :: "'a abstractMetric_scheme \<Rightarrow> string" where
  "GetKey am = key am"

definition GetUnit :: "'a abstractMetric_scheme \<Rightarrow> string" where
  "GetUnit am = toString (unit_am am)"

definition GetTimestamp :: "'a abstractMetric_scheme \<Rightarrow> 64 word" where
  "GetTimestamp am = timestamp am"

section \<open>Serializing the tags\<close>

text \<open>\<^verbatim>\<open>sortSlice\<close> sorts by \<^verbatim>\<open><\<close>: on strings Go compares byte by byte, a proper
  prefix first, which is the lexicographic order of \<^typ>\<open>string\<close> here. The keys of a
  map are distinct, so the sorted slice does not depend on the sorting algorithm.\<close>

definition sortSlice :: "'a::linorder list \<Rightarrow> 'a list" where
  "sortSlice s = sort s"

text \<open>metrics.go: the keys are collected, sorted as they are, and each entry is written
  as \<^verbatim>\<open>fmt.Sprintf("%s:%s,", key, val)\<close>; the last byte is cut off a non-empty
  result.\<close>

definition serializeTags :: "tagmap \<Rightarrow> string" where
  "serializeTags tgs =
     (let values = sortSlice (map fst tgs);
          s = concat (map (\<lambda>k. sanitizeKey k @ '':'' @ sanitizeValue (index tgs k) @ '','') values)
      in if length s > 0 then take (length s - 1) s else s)"

definition SerializeTags :: "'a abstractMetric_scheme \<Rightarrow> string" where
  "SerializeTags am = serializeTags (tags am)"

text \<open>part_000: the method \<^verbatim>\<open>serializeTags\<close> of \<^verbatim>\<open>abstractMetric\<close> writes the
  entries in the order of the \<^verbatim>\<open>range\<close> loop, without sorting.\<close>

definition serializeTags_p0 :: "tagmap \<Rightarrow> string" where
  "serializeTags_p0 tgs =
     (let s = concat (map (\<lambda>(k, v). sanitizeKey_p0 k @ '':'' @ sanitizeValue_p0 v @ '','') tgs)
      in if length s > 0 then take (length s - 1) s else s)"

text \<open>The format of the specification, \<^verbatim>\<open>key1:value1,key2:value2,...\<close>: the entries
  joined by commas.\<close>

fun joinComma :: "string list \<Rightarrow> string" where
  "joinComma [] = []"
| "joinComma [e] = e"
| "joinComma (e # es) = e @ '','' @ joinComma es"

section \<open>Values of the language\<close>

subsection \<open>float64\<close>

text \<open>
  An IEEE 754 binary64 value: a finite number, given by its exact rational value
  (\<open>Finite 0\<close> is \<open>+0\<close>), the negative zero, the two infinities, or a NaN. The finite
  values of the type are the rationals \<open>m * 2 ^ e\<close> with \<open>\<bar>m\<bar> < 2 ^ 53\<close> and
  \<open>- 1074 \<le> e \<le> 971\<close>; every operation below returns such a value.
\<close>

datatype float64 = Finite rat | NegZero | PosInf | NegInf | NaN

text \<open>The number of binary digits of a positive integer.\<close>

function bits :: "int \<Rightarrow> int" where
  "bits n = (if n \<le> 0 then 0 else 1 + bits (n div 2))"
  by pat_completeness auto
termination
  by (relation "measure nat") auto

declare bits.simps [simp del]

definition pow2 :: "int \<Rightarrow> rat" where
  "pow2 e = (if 0 \<le> e then 2 ^ nat e else 1 / 2 ^ nat (- e))"

text \<open>The integer part of the binary logarithm of a positive rational.\<close>

definition floorlog2 :: "rat \<Rightarrow> int" where
  "floorlog2 a = (if 1 \<le> a then bits \<lfloor>a\<rfloor> - 1 else - bits (\<lceil>1 / a\<rceil> - 1))"

definition roundHalfEven :: "rat \<Rightarrow> int" where
  "roundHalfEven x =
     (let f = \<lfloor>x\<rfloor>; d = x - of_int f
      in if d < 1 / 2 then f else if 1 / 2 < d then f + 1 else if even f then f else f + 1)"

text \<open>
  Rounding a rational to binary64, to the nearest value and to the even significand on a
  tie: the significand has 53 bits, or fewer in the subnormal range where the exponent
  stays at \<open>- 1074\<close>; a result of \<open>2 ^ 1024\<close> or more overflows to an infinity.
\<close>

definition f64_round :: "rat \<Rightarrow> float64" where
  "f64_round q =
     (if q = 0 then Finite 0
      else let a = \<bar>q\<bar>;
               e = max (floorlog2 a - 52) (- 1074);
               m = roundHalfEven (a / pow2 e)
           in if 1024 < bits m + e then (if q < 0 then NegInf else PosInf)
              else if m = 0 then (if q < 0 then NegZero else Finite 0)
              else Finite ((if q < 0 then - 1 else 1) * of_int m * pow2 e))"

text \<open>\<^verbatim>\<open>x + y\<close> on float64.\<close>

fun f64_add :: "float64 \<Rightarrow> float64 \<Rightarrow> float64" where
  "f64_add NaN y = NaN"
| "f64_add x NaN = NaN"
| "f64_add PosInf NegInf = NaN"
| "f64_add NegInf PosInf = NaN"
| "f64_add PosInf y = PosInf"
| "f64_add x PosInf = PosInf"
| "f64_add NegInf y = NegInf"
| "f64_add x NegInf = NegInf"
| "f64_add NegZero NegZero = NegZero"
| "f64_add NegZero (Finite b) = Finite b"
| "f64_add (Finite a) NegZero = Finite a"
| "f64_add (Finite a) (Finite b) = f64_round (a + b)"

text \<open>The value of a float64 that is neither an infinity nor a NaN.\<close>

fun f64_val :: "float64 \<Rightarrow> rat" where
  "f64_val (Finite a) = a"
| "f64_val x = 0"

text \<open>\<^verbatim>\<open>x < y\<close> on float64: false when either is a NaN.\<close>

fun f64_less :: "float64 \<Rightarrow> float64 \<Rightarrow> bool" where
  "f64_less NaN y = False"
| "f64_less x NaN = False"
| "f64_less x NegInf = False"
| "f64_less PosInf y = False"
| "f64_less NegInf y = True"
| "f64_less x PosInf = True"
| "f64_less x y = (f64_val x < f64_val y)"

definition isZero :: "float64 \<Rightarrow> bool" where
  "isZero x = (x = Finite 0 \<or> x = NegZero)"

text \<open>
  \<^verbatim>\<open>math.Min\<close> and \<^verbatim>\<open>math.Max\<close> of the standard library:
  \<^verbatim>\<open>
  func min(x, y float64) float64 {
      switch {
      case IsInf(x, -1) || IsInf(y, -1): return Inf(-1)
      case IsNaN(x) || IsNaN(y):         return NaN()
      case x == 0 && x == y:
          if Signbit(x) { return x }
          return y
      }
      if x < y { return x }
      return y
  }
  \<close>
  and \<^verbatim>\<open>max\<close> likewise, with \<^verbatim>\<open>Inf(1)\<close>, the other zero and \<^verbatim>\<open>x > y\<close>.
\<close>

definition math_Min :: "float64 \<Rightarrow> float64 \<Rightarrow> float64" where
  "math_Min x y =
     (if x = NegInf \<or> y = NegInf then NegInf
      else if x = NaN \<or> y = NaN then NaN
      else if isZero x \<and> isZero y then (if x = NegZero then x else y)
      else if f64_less x y then x else y)"

definition math_Max :: "float64 \<Rightarrow> float64 \<Rightarrow> float64" where
  "math_Max x y =
     (if x = PosInf \<or> y = PosInf then PosInf
      else if x = NaN \<or> y = NaN then NaN
      else if isZero x \<and> isZero y then (if x = NegZero then y else x)
      else if f64_less y x then x else y)"

subsection \<open>Decimal numerals\<close>

text \<open>The decimal digits of an integer that is not negative.\<close>

function showDec :: "int \<Rightarrow> string" where
  "showDec n = (if n < 10 then [char_of (48 + n)]
                else showDec (n div 10) @ [char_of (48 + n mod 10)])"
  by pat_completeness auto
termination
  by (relation "measure nat") auto

declare showDec.simps [simp del]

text \<open>\<^verbatim>\<open>%v\<close> and \<^verbatim>\<open>%d\<close> of an integer.\<close>

definition showInt :: "int \<Rightarrow> string" where
  "showInt i = (if i < 0 then CHR ''-'' # showDec (- i) else showDec i)"

subsection \<open>The verb \<^verbatim>\<open>%v\<close> on a float64\<close>

text \<open>
  \<^verbatim>\<open>fmt.Sprintf("%v", f)\<close> is \<^verbatim>\<open>strconv.FormatFloat(f, 'g', -1, 64)\<close>, but for the
  positive infinity, written \<^verbatim>\<open>+Inf\<close>. The digits are the shortest decimal that rounds
  to \<open>f\<close>: the decimal with the fewest significant digits that lies in the rounding
  interval of \<open>f\<close>, between the midpoints to the two neighbours of \<open>f\<close>, the midpoints
  included when the significand of \<open>f\<close> is even; of two such decimals of the same length,
  the nearer to \<open>f\<close>. The digits are written in the style of \<^verbatim>\<open>%e\<close> when the decimal
  exponent is less than \<open>- 4\<close> or at least \<open>6\<close>, and in the style of \<^verbatim>\<open>%f\<close> otherwise.
\<close>

text \<open>The number of decimal digits of a positive integer.\<close>

function decLength :: "int \<Rightarrow> int" where
  "decLength n = (if n \<le> 0 then 0 else 1 + decLength (n div 10))"
  by pat_completeness auto
termination
  by (relation "measure nat") auto

declare decLength.simps [simp del]

definition pow10 :: "int \<Rightarrow> rat" where
  "pow10 e = (if 0 \<le> e then 10 ^ nat e else 1 / 10 ^ nat (- e))"

text \<open>The integer part of the decimal logarithm of a positive rational.\<close>

definition floorlog10 :: "rat \<Rightarrow> int" where
  "floorlog10 a = (if 1 \<le> a then decLength \<lfloor>a\<rfloor> - 1 else - decLength (\<lceil>1 / a\<rceil> - 1))"

text \<open>The rounding interval of a positive binary64 value \<open>q = m * 2 ^ e\<close>: its two ends, and
  whether they belong to it. Below the smallest significand of a binade the lower
  neighbour is half as far.\<close>

definition roundingInterval :: "rat \<Rightarrow> rat \<times> rat \<times> bool" where
  "roundingInterval q =
     (let e = max (floorlog2 q - 52) (- 1074);
          m = \<lfloor>q / pow2 e\<rfloor>;
          hi = of_int (2 * m + 1) * pow2 (e - 1);
          lo = (if m = 2 ^ 52 \<and> - 1074 < e then of_int (4 * m - 1) * pow2 (e - 2)
                else of_int (2 * m - 1) * pow2 (e - 1))
      in (lo, hi, even m))"

definition inInterval :: "rat \<times> rat \<times> bool \<Rightarrow> rat \<Rightarrow> bool" where
  "inInterval i x =
     (case i of (lo, hi, inclusive) \<Rightarrow>
        if inclusive then lo \<le> x \<and> x \<le> hi else lo < x \<and> x < hi)"

text \<open>
  The search for the shortest decimal: with \<open>n\<close> significant digits the candidates are
  \<open>q\<close> cut after \<open>n\<close> digits and the next decimal of \<open>n\<close> digits above it. The result is
  the candidate as an integer and the power of ten that scales it. Seventeen digits
  identify every binary64 value; \<open>fuel\<close> counts the lengths still to try.
\<close>

fun shortestFrom :: "nat \<Rightarrow> rat \<Rightarrow> rat \<times> rat \<times> bool \<Rightarrow> int \<Rightarrow> int \<Rightarrow> int \<times> int" where
  "shortestFrom fuel q i k n =
     (let p = k - n + 1;
          down = \<lfloor>q / pow10 p\<rfloor>;
          up = down + 1;
          okdown = inInterval i (of_int down * pow10 p);
          okup = inInterval i (of_int up * pow10 p);
          nearest = (if q - of_int down * pow10 p < of_int up * pow10 p - q then down
                     else if of_int up * pow10 p - q < q - of_int down * pow10 p then up
                     else if even down then down else up)
      in if okdown \<and> okup then (nearest, p)
         else if okdown then (down, p)
         else if okup then (up, p)
         else (case fuel of 0 \<Rightarrow> (nearest, p) | Suc f \<Rightarrow> shortestFrom f q i k (n + 1)))"

declare shortestFrom.simps [simp del]

text \<open>Trailing zeros are no digits of the result: they move into the exponent.\<close>

function stripZeros :: "int \<times> int \<Rightarrow> int \<times> int" where
  "stripZeros (c, p) = (if c \<le> 0 \<or> c mod 10 \<noteq> 0 then (c, p) else stripZeros (c div 10, p + 1))"
  by pat_completeness auto
termination
  by (relation "measure (\<lambda>(c, p). nat c)") auto

declare stripZeros.simps [simp del]

text \<open>The digits \<open>d\<close> and the position \<open>dp\<close> of the decimal point of the shortest decimal
  of a positive value: the value \<open>0.d\<close> times ten to the \<open>dp\<close>. Zero has no digit.\<close>

definition shortestDecimal :: "rat \<Rightarrow> string \<times> int" where
  "shortestDecimal q =
     (if q = 0 then ([], 0)
      else case stripZeros (shortestFrom 16 q (roundingInterval q) (floorlog10 q) 1) of
             (c, p) \<Rightarrow> (showDec c, decLength c + p))"

text \<open>\<^verbatim>\<open>%e\<close>: one digit, the others after the point, and an exponent of two digits at
  least.\<close>

definition fmtE :: "string \<times> int \<Rightarrow> string" where
  "fmtE dd =
     (case dd of (d, dp) \<Rightarrow>
        let ex = (if d = [] then 0 else dp - 1)
        in (if d = [] then ''0'' else [hd d])
           @ (if 1 < length d then CHR ''.'' # tl d else [])
           @ ''e'' @ (if ex < 0 then ''-'' else ''+'')
           @ (if \<bar>ex\<bar> < 10 then CHR ''0'' # showDec \<bar>ex\<bar> else showDec \<bar>ex\<bar>))"

text \<open>\<^verbatim>\<open>%f\<close> with as many decimals as the digits need.\<close>

definition fmtF :: "string \<times> int \<Rightarrow> string" where
  "fmtF dd =
     (case dd of (d, dp) \<Rightarrow>
        (if 0 < dp then take (nat dp) d @ replicate (nat dp - length d) (CHR ''0'') else ''0'')
        @ (if dp < int (length d)
           then CHR ''.'' # replicate (nat (- dp)) (CHR ''0'') @ drop (nat dp) d
           else []))"

definition formatDigits :: "string \<times> int \<Rightarrow> string" where
  "formatDigits dd =
     (case dd of (d, dp) \<Rightarrow>
        let ex = dp - 1 in if ex < - 4 \<or> 6 \<le> ex then fmtE dd else fmtF dd)"

fun fmt_v :: "float64 \<Rightarrow> string" where
  "fmt_v NaN = ''NaN''"
| "fmt_v PosInf = ''+Inf''"
| "fmt_v NegInf = ''-Inf''"
| "fmt_v NegZero = ''-0''"
| "fmt_v (Finite q) =
     (if q < 0 then CHR ''-'' # formatDigits (shortestDecimal (- q))
      else formatDigits (shortestDecimal q))"

subsection \<open>\<^verbatim>\<open>interface{}\<close> and the type assertion\<close>

text \<open>
  The dynamic types a caller of \<^verbatim>\<open>Add(value interface{})\<close> can pass, as far as the
  methods tell them apart, and the values of these types. A Go \<^verbatim>\<open>int\<close> is modelled by
  \<^typ>\<open>int\<close>: the metrics store and compare such values and never compute with them.
\<close>

datatype gotype = TFloat64 | TInt | TString | TBool | TNil

datatype any = AFloat64 float64 | AInt int | AString string | ABool bool | ANil

fun typeOf :: "any \<Rightarrow> gotype" where
  "typeOf (AFloat64 v) = TFloat64"
| "typeOf (AInt v) = TInt"
| "typeOf (AString v) = TString"
| "typeOf (ABool v) = TBool"
| "typeOf ANil = TNil"

text \<open>The run-time panic of a failed assertion \<^verbatim>\<open>value.(T)\<close>
  (\<^verbatim>\<open>*runtime.TypeAssertionError\<close>: "interface conversion: interface {} is string,
  not int"), with the dynamic type found and the type asserted.\<close>

datatype panic = TypeAssertionError gotype gotype

section \<open>The metrics of metrics.go\<close>

text \<open>
  A method with a pointer receiver is a function from the state of the receiver and the
  arguments to the state after the call and the panic raised, if any. When a statement
  panics, the state is the one the statements before it have left.
\<close>

subsection \<open>Counter\<close>

record CounterMetric = abstractMetric +
  value_c :: float64

definition CounterMetric_Add :: "CounterMetric \<Rightarrow> any \<Rightarrow> CounterMetric \<times> panic option" where
  "CounterMetric_Add c val =
     (case val of
        AFloat64 v \<Rightarrow> (c\<lparr>value_c := f64_add (value_c c) v\<rparr>, None)
      | _ \<Rightarrow> (c, Some (TypeAssertionError (typeOf val) TFloat64)))"

definition CounterMetric_GetType :: "CounterMetric \<Rightarrow> string" where
  "CounterMetric_GetType c = ''c''"

definition CounterMetric_GetWeight :: "CounterMetric \<Rightarrow> int" where
  "CounterMetric_GetWeight c = 1"

definition NewCounterMetric ::
  "string \<Rightarrow> MetricUnit \<Rightarrow> tagmap \<Rightarrow> 64 word \<Rightarrow> float64 \<Rightarrow> CounterMetric" where
  "NewCounterMetric k u tgs ts v =
     \<lparr>key = k, unit_am = u, tags = tgs, timestamp = ts, value_c = v\<rparr>"

subsection \<open>Distribution\<close>

record DistributionMetric = abstractMetric +
  values_d :: "float64 list"

definition DistributionMetric_Add ::
  "DistributionMetric \<Rightarrow> any \<Rightarrow> DistributionMetric \<times> panic option" where
  "DistributionMetric_Add d val =
     (case val of
        AFloat64 v \<Rightarrow> (d\<lparr>values_d := values_d d @ [v]\<rparr>, None)
      | _ \<Rightarrow> (d, Some (TypeAssertionError (typeOf val) TFloat64)))"

definition DistributionMetric_GetType :: "DistributionMetric \<Rightarrow> string" where
  "DistributionMetric_GetType d = ''d''"

definition DistributionMetric_GetWeight :: "DistributionMetric \<Rightarrow> int" where
  "DistributionMetric_GetWeight d = int (length (values_d d))"

definition NewDistributionMetric ::
  "string \<Rightarrow> MetricUnit \<Rightarrow> tagmap \<Rightarrow> 64 word \<Rightarrow> float64 \<Rightarrow> DistributionMetric" where
  "NewDistributionMetric k u tgs ts v =
     \<lparr>key = k, unit_am = u, tags = tgs, timestamp = ts, values_d = [v]\<rparr>"

subsection \<open>Gauge\<close>

record GaugeMetric = abstractMetric +
  last_g :: float64
  min_g :: float64
  max_g :: float64
  sum_g :: float64
  count_g :: float64

definition GaugeMetric_Add :: "GaugeMetric \<Rightarrow> any \<Rightarrow> GaugeMetric \<times> panic option" where
  "GaugeMetric_Add g val =
     (case val of
        AFloat64 v \<Rightarrow>
          (g\<lparr>last_g := v,
             min_g := math_Min (min_g g) v,
             max_g := math_Max (max_g g) v,
             sum_g := f64_add (sum_g g) v,
             count_g := f64_add (count_g g) (Finite 1)\<rparr>, None)
      | _ \<Rightarrow> (g, Some (TypeAssertionError (typeOf val) TFloat64)))"

definition GaugeMetric_GetType :: "GaugeMetric \<Rightarrow> string" where
  "GaugeMetric_GetType g = ''g''"

definition GaugeMetric_GetWeight :: "GaugeMetric \<Rightarrow> int" where
  "GaugeMetric_GetWeight g = 5"

text \<open>The constructor stores the first observation in all five fields, the count
  included.\<close>

definition NewGaugeMetric ::
  "string \<Rightarrow> MetricUnit \<Rightarrow> tagmap \<Rightarrow> 64 word \<Rightarrow> float64 \<Rightarrow> GaugeMetric" where
  "NewGaugeMetric k u tgs ts v =
     \<lparr>key = k, unit_am = u, tags = tgs, timestamp = ts,
      last_g = v, min_g = v, max_g = v, sum_g = v, count_g = v\<rparr>"

subsection \<open>Set\<close>

text \<open>
  \<^verbatim>\<open>map[T]void\<close>: the keys of the map, listed in the order in which a \<^verbatim>\<open>range\<close>
  loop visits them. The language leaves that order open, so the list is in no particular
  order; the keys of a map are distinct. \<^verbatim>\<open>m[v] = member\<close> leaves the keys as they
  are when \<open>v\<close> is one of them and adds \<open>v\<close> otherwise; the new key is listed last
  here, and what is proved of SerializeValue holds for every order of the list.
\<close>

definition mapInsert :: "'a list \<Rightarrow> 'a \<Rightarrow> 'a list" where
  "mapInsert ks v = (if v \<in> set ks then ks else ks @ [v])"

record SetMetric = abstractMetric +
  values_s :: "int list"

definition SetMetric_Add :: "SetMetric \<Rightarrow> any \<Rightarrow> SetMetric \<times> panic option" where
  "SetMetric_Add s val =
     (case val of
        AInt v \<Rightarrow> (s\<lparr>values_s := mapInsert (values_s s) v\<rparr>, None)
      | _ \<Rightarrow> (s, Some (TypeAssertionError (typeOf val) TInt)))"

definition SetMetric_GetType :: "SetMetric \<Rightarrow> string" where
  "SetMetric_GetType s = ''s''"

definition SetMetric_GetWeight :: "SetMetric \<Rightarrow> int" where
  "SetMetric_GetWeight s = int (length (values_s s))"

definition SetMetric_SerializeValue :: "SetMetric \<Rightarrow> string" where
  "SetMetric_SerializeValue s =
     (let values = sortSlice (values_s s)
      in concat (map (\<lambda>el. CHR '':'' # showInt el) values))"

text \<open>\<^verbatim>\<open>crc32.ChecksumIEEE\<close>: CRC-32 with the reflected polynomial \<^verbatim>\<open>0xedb88320\<close>,
  the register starting at and finally inverted with \<^verbatim>\<open>0xffffffff\<close>, computed bit by
  bit (the library uses tables of the same function).\<close>

definition crc_bit :: "32 word \<Rightarrow> 32 word" where
  "crc_bit c = (if c AND 1 = 1 then drop_bit 1 c XOR 0xEDB88320 else drop_bit 1 c)"

definition crc_byte :: "32 word \<Rightarrow> char \<Rightarrow> 32 word" where
  "crc_byte c b = (crc_bit ^^ 8) (c XOR of_char b)"

definition ChecksumIEEE :: "string \<Rightarrow> 32 word" where
  "ChecksumIEEE s = NOT (foldl crc_byte 0xFFFFFFFF s)"

definition setStringKeyToInt :: "string \<Rightarrow> 32 word" where
  "setStringKeyToInt s = ChecksumIEEE s"

definition NewSetMetric ::
  "string \<Rightarrow> MetricUnit \<Rightarrow> tagmap \<Rightarrow> 64 word \<Rightarrow> int \<Rightarrow> SetMetric" where
  "NewSetMetric k u tgs ts v =
     \<lparr>key = k, unit_am = u, tags = tgs, timestamp = ts, values_s = [v]\<rparr>"

section \<open>The metrics of part_000\<close>

text \<open>
  In part_000 \<^verbatim>\<open>MetricUnit\<close> is an integer type, the timestamp an \<^verbatim>\<open>int\<close>, and
  \<^verbatim>\<open>Add\<close> takes a value of the static type of the metric: a \<^verbatim>\<open>float64\<close>, or the
  element type \<^verbatim>\<open>T\<close> of the set. No \<^verbatim>\<open>Add\<close> has a failing branch.
\<close>

record abstractMetric_p0 =
  key_p0 :: string
  unit_p0 :: int
  tags_p0 :: tagmap
  timestamp_p0 :: int

record CounterMetric_p0 = abstractMetric_p0 +
  value_c0 :: float64

definition CounterMetric_Add_p0 :: "CounterMetric_p0 \<Rightarrow> float64 \<Rightarrow> CounterMetric_p0" where
  "CounterMetric_Add_p0 c v = c\<lparr>value_c0 := f64_add (value_c0 c) v\<rparr>"

definition NewCounterMetric_p0 ::
  "string \<Rightarrow> int \<Rightarrow> tagmap \<Rightarrow> int \<Rightarrow> float64 \<Rightarrow> CounterMetric_p0" where
  "NewCounterMetric_p0 k u tgs ts v =
     \<lparr>key_p0 = k, unit_p0 = u, tags_p0 = tgs, timestamp_p0 = ts, value_c0 = v\<rparr>"

record DistributionMetric_p0 = abstractMetric_p0 +
  values_d0 :: "float64 list"

definition DistributionMetric_Add_p0 ::
  "DistributionMetric_p0 \<Rightarrow> float64 \<Rightarrow> DistributionMetric_p0" where
  "DistributionMetric_Add_p0 d v = d\<lparr>values_d0 := values_d0 d @ [v]\<rparr>"

record GaugeMetric_p0 = abstractMetric_p0 +
  last_g0 :: float64
  min_g0 :: float64
  max_g0 :: float64
  sum_g0 :: float64
  count_g0 :: float64

definition GaugeMetric_Add_p0 :: "GaugeMetric_p0 \<Rightarrow> float64 \<Rightarrow> GaugeMetric_p0" where
  "GaugeMetric_Add_p0 g v =
     g\<lparr>last_g0 := v,
       min_g0 := math_Min (min_g0 g) v,
       max_g0 := math_Max (max_g0 g) v,
       sum_g0 := f64_add (sum_g0 g) v,
       count_g0 := f64_add (count_g0 g) (Finite 1)\<rparr>"

definition NewGaugeMetric_p0 ::
  "string \<Rightarrow> int \<Rightarrow> tagmap \<Rightarrow> int \<Rightarrow> float64 \<Rightarrow> GaugeMetric_p0" where
  "NewGaugeMetric_p0 k u tgs ts v =
     \<lparr>key_p0 = k, unit_p0 = u, tags_p0 = tgs, timestamp_p0 = ts,
      last_g0 = v, min_g0 = v, max_g0 = v, sum_g0 = v, count_g0 = v\<rparr>"

text \<open>
  \<^verbatim>\<open>SetMetric[T NumberOrString]\<close> is instantiated at \<^verbatim>\<open>int\<close> and at
  \<^verbatim>\<open>string\<close>. \<^verbatim>\<open>Add\<close> and the constructor are the same at both; the type switch of
  \<^verbatim>\<open>SerializeValue\<close> takes the branch of the instance, so there is one function for
  each: an \<^verbatim>\<open>int\<close> is written with \<^verbatim>\<open>%v\<close>, a string as the \<^verbatim>\<open>%d\<close> of its
  checksum. \<^verbatim>\<open>slices.Sort\<close> sorts by \<^verbatim>\<open><\<close> on \<^verbatim>\<open>T\<close>.
\<close>

record 't SetMetric_p0 = abstractMetric_p0 +
  values_s0 :: "'t list"

definition SetMetric_Add_p0 :: "'t SetMetric_p0 \<Rightarrow> 't \<Rightarrow> 't SetMetric_p0" where
  "SetMetric_Add_p0 s v = s\<lparr>values_s0 := mapInsert (values_s0 s) v\<rparr>"

definition slices_Sort :: "'a::linorder list \<Rightarrow> 'a list" where
  "slices_Sort s = sort s"

definition SetMetric_int_SerializeValue_p0 :: "int SetMetric_p0 \<Rightarrow> string" where
  "SetMetric_int_SerializeValue_p0 s =
     (let values = slices_Sort (values_s0 s)
      in concat (map (\<lambda>el. CHR '':'' # showInt el) values))"

definition SetMetric_string_SerializeValue_p0 :: "string SetMetric_p0 \<Rightarrow> string" where
  "SetMetric_string_SerializeValue_p0 s =
     (let values = slices_Sort (values_s0 s)
      in concat (map (\<lambda>el. CHR '':'' # showInt (uint (ChecksumIEEE el))) values))"

definition NewSetMetric_p0 ::
  "string \<Rightarrow> int \<Rightarrow> tagmap \<Rightarrow> int \<Rightarrow> 't \<Rightarrow> 't SetMetric_p0" where
  "NewSetMetric_p0 k u tgs ts v =
     \<lparr>key_p0 = k, unit_p0 = u, tags_p0 = tgs, timestamp_p0 = ts, values_s0 = [v]\<rparr>"

section \<open>Serializing the values of Counter, Distribution and Gauge\<close>

subsection \<open>metrics.go\<close>

text \<open>\<^verbatim>\<open>fmt.Sprintf(":%v", c.value)\<close>.\<close>

definition CounterMetric_SerializeValue :: "CounterMetric \<Rightarrow> string" where
  "CounterMetric_SerializeValue c = CHR '':'' # fmt_v (value_c c)"

definition DistributionMetric_SerializeValue :: "DistributionMetric \<Rightarrow> string" where
  "DistributionMetric_SerializeValue d = concat (map (\<lambda>el. CHR '':'' # fmt_v el) (values_d d))"

text \<open>\<^verbatim>\<open>fmt.Sprintf(":%v:%v:%v:%v:%v", g.last, g.min, g.max, g.sum, g.count)\<close>.\<close>

definition GaugeMetric_SerializeValue :: "GaugeMetric \<Rightarrow> string" where
  "GaugeMetric_SerializeValue g =
     CHR '':'' # fmt_v (last_g g) @ CHR '':'' # fmt_v (min_g g) @ CHR '':'' # fmt_v (max_g g)
     @ CHR '':'' # fmt_v (sum_g g) @ CHR '':'' # fmt_v (count_g g)"

subsection \<open>part_000\<close>

text \<open>\<^verbatim>\<open>fmt.Sprintf("%v", c.value)\<close>: the format of the Counter of part_000 has no
  colon.\<close>

definition CounterMetric_SerializeValue_p0 :: "CounterMetric_p0 \<Rightarrow> string" where
  "CounterMetric_SerializeValue_p0 c = fmt_v (value_c0 c)"

definition DistributionMetric_SerializeValue_p0 :: "DistributionMetric_p0 \<Rightarrow> string" where
  "DistributionMetric_SerializeValue_p0 d =
     concat (map (\<lambda>el. CHR '':'' # fmt_v el) (values_d0 d))"

definition GaugeMetric_SerializeValue_p0 :: "GaugeMetric_p0 \<Rightarrow> string" where
  "GaugeMetric_SerializeValue_p0 g =
     CHR '':'' # fmt_v (last_g0 g) @ CHR '':'' # fmt_v (min_g0 g) @ CHR '':'' # fmt_v (max_g0 g)
     @ CHR '':'' # fmt_v (sum_g0 g) @ CHR '':'' # fmt_v (count_g0 g)"

text \<open>A metric after a constructor and a list of calls of Add with \<^verbatim>\<open>float64\<close>
  arguments.\<close>

definition CounterMetric_Adds :: "CounterMetric \<Rightarrow> float64 list \<Rightarrow> CounterMetric" where
  "CounterMetric_Adds c vs = foldl (\<lambda>m v. fst (CounterMetric_Add m (AFloat64 v))) c vs"

definition GaugeMetric_Adds :: "GaugeMetric \<Rightarrow> float64 list \<Rightarrow> GaugeMetric" where
  "GaugeMetric_Adds g vs = foldl (\<lambda>m v. fst (GaugeMetric_Add m (AFloat64 v))) g vs"

definition CounterMetric_Adds_p0 :: "CounterMetric_p0 \<Rightarrow> float64 list \<Rightarrow> CounterMetric_p0" where
  "CounterMetric_Adds_p0 c vs = foldl CounterMetric_Add_p0 c vs"

definition GaugeMetric_Adds_p0 :: "GaugeMetric_p0 \<Rightarrow> float64 list \<Rightarrow> GaugeMetric_p0" where
  "GaugeMetric_Adds_p0 g vs = foldl GaugeMetric_Add_p0 g vs"

section \<open>Auxiliary notions\<close>

text \<open>The number of underscores of a string.\<close>

definition underscores :: "string \<Rightarrow> nat" where
  "underscores s = length (filter (\<lambda>c. c = CHR ''_'') s)"

section \<open>Facts about the replacement of runs\<close>

lemma replaceRuns_clean:
  "\<forall>c \<in> set repl. \<not> re c \<Longrightarrow> \<forall>c \<in> set (replaceRuns re repl b s). \<not> re c"
  by (induction s arbitrary: b) auto

lemma replaceRuns_id:
  "\<forall>c \<in> set s. \<not> re c \<Longrightarrow> replaceRuns re repl b s = s"
  by (induction s arbitrary: b) auto

lemma replaceRuns_idem:
  assumes "\<forall>c \<in> set repl. \<not> re c"
  shows "replaceRuns re repl b' (replaceRuns re repl b s) = replaceRuns re repl b s"
  using replaceRuns_clean [OF assms] by (rule replaceRuns_id)

lemma replaceRuns_empty:
  "replaceRuns re [] b s = filter (\<lambda>c. \<not> re c) s"
  by (induction s arbitrary: b) auto

lemma underscore_not_keyRegex: "\<forall>c \<in> set ''_''. \<not> keyRegex c"
  by (simp add: keyRegex_def)

lemma underscore_not_valueRegex_p0: "\<forall>c \<in> set ''_''. \<not> valueRegex_p0 c"
  by (simp add: valueRegex_p0_def perl_w_def)

lemma valueRegex_imp_p0: "valueRegex c \<Longrightarrow> valueRegex_p0 c"
  by (auto simp: valueRegex_def valueRegex_p0_def)

lemma underscores_filter:
  "\<not> re (CHR ''_'') \<Longrightarrow> underscores (filter (\<lambda>c. \<not> re c) s) = underscores s"
  unfolding underscores_def by (induction s) auto

lemma underscores_replaceRuns:
  assumes "\<not> re (CHR ''_'')"
  shows "underscores s \<le> underscores (replaceRuns re ''_'' b s)
         \<and> (\<not> b \<and> (\<exists>c \<in> set s. re c) \<longrightarrow> underscores s < underscores (replaceRuns re ''_'' b s))"
proof (induction s arbitrary: b)
  case Nil
  then show ?case by (simp add: underscores_def)
next
  case (Cons c cs)
  show ?case
  proof (cases "re c")
    case True
    with assms have ne: "c \<noteq> CHR ''_''" by auto
    have le: "underscores cs \<le> underscores (replaceRuns re ''_'' True cs)"
      using Cons.IH [of True] by simp
    from True ne le show ?thesis by (simp add: underscores_def)
  next
    case False
    have ih: "underscores cs \<le> underscores (replaceRuns re ''_'' False cs)
         \<and> ((\<exists>c \<in> set cs. re c) \<longrightarrow> underscores cs < underscores (replaceRuns re ''_'' False cs))"
      using Cons.IH [of False] by simp
    from False ih show ?thesis by (auto simp: underscores_def)
  qed
qed

section \<open>The sanitizers\<close>

text \<open>
  C8. Both sanitizers are idempotent, in metrics.go and in part_000: sanitizing a
  sanitized string changes nothing.
\<close>

theorem sanitizers_idempotent:
  "sanitizeKey (sanitizeKey s) = sanitizeKey s
   \<and> sanitizeValue (sanitizeValue s) = sanitizeValue s
   \<and> sanitizeKey_p0 (sanitizeKey_p0 s) = sanitizeKey_p0 s
   \<and> sanitizeValue_p0 (sanitizeValue_p0 s) = sanitizeValue_p0 s"
proof -
  have k: "replaceRuns keyRegex ''_'' False (replaceRuns keyRegex ''_'' False s)
           = replaceRuns keyRegex ''_'' False s"
    by (rule replaceRuns_idem [OF underscore_not_keyRegex])
  have v: "replaceRuns valueRegex [] False (replaceRuns valueRegex [] False s)
           = replaceRuns valueRegex [] False s"
    by (rule replaceRuns_idem) simp
  have v0: "replaceRuns valueRegex_p0 ''_'' False (replaceRuns valueRegex_p0 ''_'' False s)
           = replaceRuns valueRegex_p0 ''_'' False s"
    by (rule replaceRuns_idem [OF underscore_not_valueRegex_p0])
  from k v v0 show ?thesis
    by (simp add: sanitizeKey_def sanitizeValue_def sanitizeKey_p0_def sanitizeValue_p0_def
        ReplaceAllString_def)
qed

theorem sanitizers_idempotent_witness:
  "sanitizeKey ''user id!!x'' = ''user_id_x''
   \<and> sanitizeKey (sanitizeKey ''user id!!x'') = ''user_id_x''
   \<and> sanitizeValue ''a!b c'' = ''ab c''
   \<and> sanitizeValue (sanitizeValue ''a!b c'') = ''ab c''
   \<and> sanitizeValue_p0 ''a!b c'' = ''a_b_c''
   \<and> sanitizeValue_p0 (sanitizeValue_p0 ''a!b c'') = ''a_b_c''"
proof -
  have a: "sanitizeKey ''user id!!x'' = ''user_id_x''" by code_simp
  have b: "sanitizeValue ''a!b c'' = ''ab c''" by code_simp
  have c: "sanitizeValue_p0 ''a!b c'' = ''a_b_c''" by code_simp
  show ?thesis
    using sanitizers_idempotent [of "''user id!!x''"] sanitizers_idempotent [of "''a!b c''"]
    by (simp only: a b c simp_thms)
qed

text \<open>
  C6, the claim as stated: the two variants of sanitizeValue return the same output for
  every input. It fails: on \<^verbatim>\<open>a!b\<close> metrics.go deletes the run and part_000 writes an
  underscore for it.
\<close>

theorem sanitizeValue_variants_differ:
  "sanitizeValue ''a!b'' = ''ab'' \<and> sanitizeValue_p0 ''a!b'' = ''a_b''
   \<and> sanitizeValue ''a!b'' \<noteq> sanitizeValue_p0 ''a!b''"
  by code_simp

text \<open>
  C6, amended. The two variants of sanitizeValue are different functions: metrics.go
  deletes every run of disallowed characters, part_000 replaces it by one underscore and
  also counts whitespace as disallowed. They return the same output exactly on the inputs
  in which every character is allowed by the pattern of part_000, and there both return
  the input unchanged.
\<close>

theorem sanitizeValue_variants_agree_iff:
  "(sanitizeValue s = sanitizeValue_p0 s) = (\<forall>c \<in> set s. \<not> valueRegex_p0 c)
   \<and> ((\<forall>c \<in> set s. \<not> valueRegex_p0 c) \<longrightarrow> sanitizeValue s = s \<and> sanitizeValue_p0 s = s)"
proof -
  have same: "sanitizeValue s = s \<and> sanitizeValue_p0 s = s"
    if ok: "\<forall>c \<in> set s. \<not> valueRegex_p0 c"
  proof -
    from ok have ok': "\<forall>c \<in> set s. \<not> valueRegex c"
      using valueRegex_imp_p0 by blast
    show ?thesis
      by (simp add: sanitizeValue_def sanitizeValue_p0_def ReplaceAllString_def
          replaceRuns_id [OF ok] replaceRuns_id [OF ok'])
  qed
  have differ: "sanitizeValue s \<noteq> sanitizeValue_p0 s"
    if bad: "\<exists>c \<in> set s. valueRegex_p0 c"
  proof -
    have u: "\<not> valueRegex (CHR ''_'')" "\<not> valueRegex_p0 (CHR ''_'')"
      by (simp_all add: valueRegex_def valueRegex_p0_def perl_w_def)
    have "underscores (sanitizeValue s) = underscores s"
      by (simp add: sanitizeValue_def ReplaceAllString_def replaceRuns_empty
          underscores_filter [where re = valueRegex, OF u(1)])
    moreover have "underscores s < underscores (sanitizeValue_p0 s)"
      using underscores_replaceRuns [where re = valueRegex_p0 and s = s and b = False, OF u(2)] bad
      by (simp add: sanitizeValue_p0_def ReplaceAllString_def)
    ultimately show ?thesis by auto
  qed
  show ?thesis
  proof (cases "\<forall>c \<in> set s. \<not> valueRegex_p0 c")
    case True
    with same show ?thesis by simp
  next
    case False
    then have "\<exists>c \<in> set s. valueRegex_p0 c" by simp
    then have "sanitizeValue s \<noteq> sanitizeValue_p0 s" by (rule differ)
    with False show ?thesis by blast
  qed
qed

theorem sanitizeValue_variants_agree_iff_witness:
  "list_all (\<lambda>c. \<not> valueRegex_p0 c) ''a:b_9''
   \<and> sanitizeValue ''a:b_9'' = sanitizeValue_p0 ''a:b_9''
   \<and> sanitizeValue ''a:b_9'' = ''a:b_9'' \<and> sanitizeValue_p0 ''a:b_9'' = ''a:b_9''"
proof -
  have l: "list_all (\<lambda>c. \<not> valueRegex_p0 c) ''a:b_9''" by code_simp
  then have h: "\<forall>c \<in> set ''a:b_9''. \<not> valueRegex_p0 c"
    by (simp only: list_all_iff)
  show ?thesis
    using l h sanitizeValue_variants_agree_iff [of "''a:b_9''"] by blast
qed

section \<open>Custom units\<close>

text \<open>
  C9. A custom unit keeps exactly the characters in a to z of its input, in their order
  (an uppercase letter is dropped, not folded to lowercase); toString and GetUnit return
  that string as it is; an input left with no character gives the empty unit string, and
  the construction has no failing branch (CustomUnit returns a MetricUnit for every
  input).
\<close>

theorem CustomUnit_strips:
  "toString (CustomUnit u) = filter lower u
   \<and> GetUnit (am\<lparr>unit_am := CustomUnit u\<rparr>) = filter lower u
   \<and> ((\<forall>c \<in> set u. \<not> lower c) \<longrightarrow> toString (CustomUnit u) = [])"
proof -
  have "toString (CustomUnit u) = filter lower u"
    by (simp add: toString_def CustomUnit_def ReplaceAllString_def replaceRuns_empty
        unitRegex_def)
  then show ?thesis
    by (auto simp: GetUnit_def filter_empty_conv)
qed

theorem CustomUnit_strips_witness:
  "toString (CustomUnit ''Foo Bar9'') = ''ooar''
   \<and> GetUnit (\<lparr>key = ''k'', unit_am = \<lparr>unit = ''second''\<rparr>, tags = [], timestamp = 0\<rparr>
        \<lparr>unit_am := CustomUnit ''Foo Bar9''\<rparr>) = ''ooar''
   \<and> list_all (\<lambda>c. \<not> lower c) ''A1 -'' \<and> toString (CustomUnit ''A1 -'') = []"
proof -
  let ?am = "\<lparr>key = ''k'', unit_am = \<lparr>unit = ''second''\<rparr>, tags = [], timestamp = 0\<rparr>"
  have f: "filter lower ''Foo Bar9'' = ''ooar''" by code_simp
  have l: "list_all (\<lambda>c. \<not> lower c) ''A1 -''" by code_simp
  then have h: "\<forall>c \<in> set ''A1 -''. \<not> lower c"
    by (simp only: list_all_iff)
  from CustomUnit_strips [where u = "''Foo Bar9''" and am = ?am]
  have a: "toString (CustomUnit ''Foo Bar9'') = ''ooar''
           \<and> GetUnit (?am\<lparr>unit_am := CustomUnit ''Foo Bar9''\<rparr>) = ''ooar''"
    unfolding f by blast
  from CustomUnit_strips [where u = "''A1 -''" and am = ?am] h
  have b: "toString (CustomUnit ''A1 -'') = []" by blast
  from a b l show ?thesis by blast
qed

section \<open>Serializing the tags: results\<close>

lemma strip_join:
  "es \<noteq> [] \<Longrightarrow> butlast (concat (map (\<lambda>e. e @ '','') es)) = joinComma es"
  by (induction es rule: joinComma.induct) (auto simp: butlast_append)

lemma concat_nonempty: "es \<noteq> [] \<Longrightarrow> concat (map (\<lambda>e. e @ '','') es) \<noteq> []"
  by (cases es) auto

lemma serializeTags_join:
  "serializeTags tgs =
     joinComma (map (\<lambda>k. sanitizeKey k @ '':'' @ sanitizeValue (index tgs k)) (sortSlice (map fst tgs)))"
proof (cases "tgs = []")
  case True
  then show ?thesis by (simp add: serializeTags_def sortSlice_def)
next
  case False
  let ?es = "map (\<lambda>k. sanitizeKey k @ '':'' @ sanitizeValue (index tgs k)) (sortSlice (map fst tgs))"
  have "length ?es = length tgs" by (simp add: sortSlice_def)
  with False have ne: "?es \<noteq> []" by auto
  have c: "concat (map (\<lambda>k. sanitizeKey k @ '':'' @ sanitizeValue (index tgs k) @ '','') (sortSlice (map fst tgs)))
        = concat (map (\<lambda>e. e @ '','') ?es)"
    by (simp add: comp_def)
  show ?thesis
    unfolding serializeTags_def Let_def c
    using concat_nonempty [OF ne] strip_join [OF ne]
    by (simp add: butlast_conv_take)
qed

lemma sortSlice_perm:
  assumes "distinct (map fst t1)" "distinct (map fst t2)" "set t1 = set t2"
  shows "sortSlice (map fst t1) = sortSlice (map fst t2)"
proof -
  have "set (map fst t1) = set (map fst t2)" using assms(3) by simp
  then show ?thesis
    unfolding sortSlice_def
    using assms(1,2)
    by (intro sorted_distinct_set_unique) (simp_all)
qed

lemma index_perm:
  assumes "distinct (map fst t1)" "distinct (map fst t2)" "set t1 = set t2"
  shows "index t1 = index t2"
  using map_of_inject_set [OF assms(1,2)] assms(3) by (auto simp: index_def fun_eq_iff)


lemma sanitizeValue_no_comma: "CHR '','' \<notin> set (sanitizeValue v)"
proof -
  have "\<forall>c \<in> set (replaceRuns valueRegex [] False v). \<not> valueRegex c"
    by (rule replaceRuns_clean) simp
  moreover have "valueRegex (CHR '','')"
    by (simp add: valueRegex_def perl_w_def perl_d_def perl_s_def lower_def upper_def digit_def)
  ultimately show ?thesis
    by (auto simp: sanitizeValue_def ReplaceAllString_def)
qed

lemma joinComma_nonempty:
  "es \<noteq> [] \<Longrightarrow> last es \<noteq> [] \<Longrightarrow> joinComma es \<noteq> []"
  by (induction es rule: joinComma.induct) auto

lemma last_joinComma:
  "es \<noteq> [] \<Longrightarrow> last es \<noteq> [] \<Longrightarrow> last (joinComma es) = last (last es)"
proof (induction es rule: joinComma.induct)
  case (3 e v va)
  then have "joinComma (v # va) \<noteq> []"
    using joinComma_nonempty [of "v # va"] by simp
  with 3 show ?case by simp
qed simp_all

lemma joinComma_empty_iff:
  "\<forall>e \<in> set es. e \<noteq> [] \<Longrightarrow> (joinComma es = []) = (es = [])"
  by (induction es rule: joinComma.induct) auto

lemma last_entry: "last (k @ '':'' @ sanitizeValue v) \<noteq> CHR '',''"
proof (cases "sanitizeValue v = []")
  case True
  then show ?thesis by simp
next
  case False
  then have "last (sanitizeValue v) \<in> set (sanitizeValue v)" by simp
  with sanitizeValue_no_comma [of v] have "last (sanitizeValue v) \<noteq> CHR '',''" by metis
  with False show ?thesis by simp
qed

lemma serializeTags_last:
  "serializeTags tgs \<noteq> [] \<Longrightarrow> last (serializeTags tgs) \<noteq> CHR '',''"
proof -
  assume ne: "serializeTags tgs \<noteq> []"
  let ?f = "\<lambda>k. sanitizeKey k @ '':'' @ sanitizeValue (index tgs k)"
  let ?es = "map ?f (sortSlice (map fst tgs))"
  from ne have es: "?es \<noteq> []" by (auto simp: serializeTags_join)
  then have "last ?es = ?f (last (sortSlice (map fst tgs)))"
    by (simp add: last_map)
  then have l: "last ?es \<noteq> []" "last (last ?es) \<noteq> CHR '',''"
    using last_entry by simp_all
  from last_joinComma [OF es l(1)] l(2) show ?thesis
    by (simp add: serializeTags_join)
qed

lemma index_mem:
  "distinct (map fst tgs) \<Longrightarrow> k \<in> fst ` set tgs \<Longrightarrow> (k, index tgs k) \<in> set tgs"
  by (auto simp: index_def split: option.splits dest: map_of_SomeD
      simp: map_of_eq_None_iff)

text \<open>
  C2, amended. For every tag mapping (its keys are distinct), serializeTags of metrics.go
  is the entries \<^verbatim>\<open>key:value\<close> joined by commas, with no trailing comma; the
  entries appear in strictly ascending order of the raw key, the key as stored and not
  the sanitized one, and each entry shows the sanitized key and the sanitized value of
  one tag of the mapping; two mappings with the same contents, whatever the order of their
  entries, give the same string; the empty mapping gives the empty string.
\<close>

theorem serializeTags_by_raw_key:
  "distinct (map fst tgs) \<longrightarrow>
     serializeTags tgs =
       joinComma (map (\<lambda>k. sanitizeKey k @ '':'' @ sanitizeValue (index tgs k))
                     (sortSlice (map fst tgs)))
     \<and> sorted_wrt (<) (sortSlice (map fst tgs))
     \<and> set (sortSlice (map fst tgs)) = fst ` set tgs
     \<and> (\<forall>k \<in> fst ` set tgs. (k, index tgs k) \<in> set tgs)
     \<and> (serializeTags tgs \<noteq> [] \<longrightarrow> last (serializeTags tgs) \<noteq> CHR '','')
     \<and> (distinct (map fst tgs') \<and> set tgs' = set tgs \<longrightarrow> serializeTags tgs' = serializeTags tgs)
     \<and> serializeTags [] = []"
proof
  assume d: "distinct (map fst tgs)"
  have s: "sorted_wrt (<) (sortSlice (map fst tgs))"
    using d by (simp add: sortSlice_def strict_sorted_iff)
  have m: "set (sortSlice (map fst tgs)) = fst ` set tgs"
    by (simp add: sortSlice_def)
  have i: "\<forall>k \<in> fst ` set tgs. (k, index tgs k) \<in> set tgs"
    using index_mem [OF d] by blast
  have p: "serializeTags tgs' = serializeTags tgs"
    if "distinct (map fst tgs')" "set tgs' = set tgs"
    using sortSlice_perm [OF that(1) d that(2)] index_perm [OF that(1) d that(2)]
    by (simp add: serializeTags_join)
  have e: "serializeTags [] = []"
    by (simp add: serializeTags_def sortSlice_def)
  from s m i p e serializeTags_last [of tgs] serializeTags_join [of tgs]
  show "serializeTags tgs =
       joinComma (map (\<lambda>k. sanitizeKey k @ '':'' @ sanitizeValue (index tgs k))
                     (sortSlice (map fst tgs)))
     \<and> sorted_wrt (<) (sortSlice (map fst tgs))
     \<and> set (sortSlice (map fst tgs)) = fst ` set tgs
     \<and> (\<forall>k \<in> fst ` set tgs. (k, index tgs k) \<in> set tgs)
     \<and> (serializeTags tgs \<noteq> [] \<longrightarrow> last (serializeTags tgs) \<noteq> CHR '','')
     \<and> (distinct (map fst tgs') \<and> set tgs' = set tgs \<longrightarrow> serializeTags tgs' = serializeTags tgs)
     \<and> serializeTags [] = []"
    by blast
qed

theorem serializeTags_by_raw_key_witness:
  "distinct (map fst [(''b'', ''x y''), (''a'', ''y,'')])
   \<and> serializeTags [(''b'', ''x y''), (''a'', ''y,'')] = ''a:y,b:x y''
   \<and> serializeTags [(''a'', ''y,''), (''b'', ''x y'')] = ''a:y,b:x y''
   \<and> sortSlice (map fst [(''b'', ''x y''), (''a'', ''y,'')]) = [''a'', ''b'']
   \<and> last (serializeTags [(''b'', ''x y''), (''a'', ''y,'')]) \<noteq> CHR '',''"
proof -
  let ?t = "[(''b'', ''x y''), (''a'', ''y,'')]"
  let ?t' = "[(''a'', ''y,''), (''b'', ''x y'')]"
  have d: "distinct (map fst ?t)" by simp
  have d': "distinct (map fst ?t')" by simp
  have e: "set ?t' = set ?t" by auto
  have v: "serializeTags ?t = ''a:y,b:x y''" by code_simp
  have k: "sortSlice (map fst ?t) = [''a'', ''b'']" by code_simp
  from serializeTags_by_raw_key [of ?t ?t'] d d' e
  have "serializeTags ?t' = serializeTags ?t
        \<and> (serializeTags ?t \<noteq> [] \<longrightarrow> last (serializeTags ?t) \<noteq> CHR '','')"
    by blast
  with d v k show ?thesis by simp
qed

text \<open>
  C2, the claim as stated: the keys of the output appear in ascending order of the
  sanitized key. It fails: the raw keys \<^verbatim>\<open>a!\<close> and \<^verbatim>\<open>a0\<close> are written in this
  order, as \<^verbatim>\<open>a_\<close> and \<^verbatim>\<open>a0\<close>, and \<^verbatim>\<open>a_\<close> is the greater of the two.
\<close>

theorem serializeTags_sanitized_keys_unsorted:
  "serializeTags [(''a!'', ''x''), (''a0'', ''y'')] = ''a_:x,a0:y''
   \<and> sanitizeKey ''a!'' = ''a_'' \<and> sanitizeKey ''a0'' = ''a0''
   \<and> \<not> sorted (map sanitizeKey (sortSlice (map fst [(''a!'', ''x''), (''a0'', ''y'')])))"
  by code_simp

text \<open>The method of part_000 does not sort: its output follows the order in which the
  loop visits the map.\<close>

lemma serializeTags_p0_order_dependent:
  "serializeTags_p0 [(''a'', ''1''), (''b'', ''2'')] = ''a:1,b:2''
   \<and> serializeTags_p0 [(''b'', ''2''), (''a'', ''1'')] = ''b:2,a:1''"
  by code_simp

section \<open>The Set metric\<close>

lemma distinct_mapInsert: "distinct ks \<Longrightarrow> distinct (mapInsert ks v)"
  by (simp add: mapInsert_def)

lemma set_mapInsert: "set (mapInsert ks v) = insert v (set ks)"
  by (auto simp: mapInsert_def)

lemma mapInsert_present: "v \<in> set ks \<Longrightarrow> mapInsert ks v = ks"
  by (simp add: mapInsert_def)

lemma sort_distinct_canonical:
  "distinct ks \<Longrightarrow> sort ks = sorted_list_of_set (set ks)"
  by (simp add: sorted_list_of_set_sort_remdups distinct_remdups_id)

lemma sort_distinct_strict: "distinct ks \<Longrightarrow> sorted_wrt (<) (sort ks)"
  by (simp add: strict_sorted_iff)

lemma set_of_b_then_a:
  "SetMetric_string_SerializeValue_p0
     (SetMetric_Add_p0 (NewSetMetric_p0 ''k'' 3 [] 0 ''b'') ''a'') = '':3904355907:1908338681''"
  by code_simp

lemma values_of_b_then_a:
  "values_s0 (SetMetric_Add_p0 (NewSetMetric_p0 ''k'' 3 [] 0 ''b'') ''a'') = [''b'', ''a'']"
  by (simp add: SetMetric_Add_p0_def NewSetMetric_p0_def mapInsert_def)

lemma crc_a: "uint (ChecksumIEEE ''a'') = 3904355907"
  by code_simp

lemma crc_b: "uint (ChecksumIEEE ''b'') = 1908338681"
  by code_simp

lemma set_5_3_5:
  "SetMetric_SerializeValue
     (fst (SetMetric_Add (fst (SetMetric_Add (NewSetMetric ''k'' \<lparr>unit = ''second''\<rparr> [] 0 5)
        (AInt 3))) (AInt 5))) = '':3:5''"
  by code_simp

lemma values_5_3:
  "values_s (fst (SetMetric_Add (NewSetMetric ''k'' \<lparr>unit = ''second''\<rparr> [] 0 5) (AInt 3)))
   = [5, 3]"
  by (simp add: SetMetric_Add_def NewSetMetric_def mapInsert_def)

text \<open>The three serializations, for keys in any order: what is written is the strictly
  ascending list of the keys.\<close>

lemma SetMetric_SerializeValue_sorted:
  "distinct (values_s s) \<Longrightarrow>
     SetMetric_SerializeValue s
       = concat (map (\<lambda>el. CHR '':'' # showInt el) (sorted_list_of_set (set (values_s s))))
     \<and> sorted_wrt (<) (sortSlice (values_s s))
     \<and> set (sortSlice (values_s s)) = set (values_s s)"
  by (simp add: SetMetric_SerializeValue_def sortSlice_def sort_distinct_strict
      flip: sort_distinct_canonical)

lemma SetMetric_int_SerializeValue_p0_sorted:
  "distinct (values_s0 s) \<Longrightarrow>
     SetMetric_int_SerializeValue_p0 s
       = concat (map (\<lambda>el. CHR '':'' # showInt el) (sorted_list_of_set (set (values_s0 s))))
     \<and> sorted_wrt (<) (slices_Sort (values_s0 s))
     \<and> set (slices_Sort (values_s0 s)) = set (values_s0 s)"
  by (simp add: SetMetric_int_SerializeValue_p0_def slices_Sort_def sort_distinct_strict
      flip: sort_distinct_canonical)

lemma SetMetric_string_SerializeValue_p0_sorted:
  "distinct (values_s0 s) \<Longrightarrow>
     SetMetric_string_SerializeValue_p0 s
       = concat (map (\<lambda>el. CHR '':'' # showInt (uint (ChecksumIEEE el)))
                     (sorted_list_of_set (set (values_s0 s))))
     \<and> sorted_wrt (<) (slices_Sort (values_s0 s))
     \<and> set (slices_Sort (values_s0 s)) = set (values_s0 s)"
  by (simp add: SetMetric_string_SerializeValue_p0_def slices_Sort_def sort_distinct_strict
      flip: sort_distinct_canonical)

text \<open>
  C3. In every Set metric, of metrics.go and of both instances of part_000, adding an
  element that is present leaves the metric as it is, and the keys stay distinct. Whatever
  the order in which the map hands out its keys, SerializeValue sorts them: it writes the
  elements of the set, each once, in strictly ascending order of the elements themselves
  (integers by value, strings byte by byte), an integer as \<^verbatim>\<open>:\<close> and its decimal
  numeral, a string as \<^verbatim>\<open>:\<close> and the decimal numeral of its CRC-32 checksum; so two
  metrics with the same elements in different orders are written alike. The set of
  strings made with \<^verbatim>\<open>b\<close> and then \<^verbatim>\<open>a\<close> holds its keys in the order \<^verbatim>\<open>b\<close>,
  \<^verbatim>\<open>a\<close> and is written as the checksum of \<^verbatim>\<open>a\<close> followed by that of \<^verbatim>\<open>b\<close>,
  although the checksum of \<^verbatim>\<open>b\<close> is the smaller number.
\<close>

theorem Set_dedup_sorted:
  "(v \<in> set (values_s s) \<longrightarrow> SetMetric_Add s (AInt v) = (s, None))
   \<and> (x \<in> set (values_s0 si) \<longrightarrow> SetMetric_Add_p0 si x = si)
   \<and> (y \<in> set (values_s0 ss) \<longrightarrow> SetMetric_Add_p0 ss y = ss)
   \<and> (distinct (values_s s) \<longrightarrow>
        distinct (values_s (fst (SetMetric_Add s val)))
        \<and> SetMetric_SerializeValue s
            = concat (map (\<lambda>el. CHR '':'' # showInt el)
                          (sorted_list_of_set (set (values_s s))))
        \<and> sorted_wrt (<) (sortSlice (values_s s))
        \<and> set (sortSlice (values_s s)) = set (values_s s)
        \<and> (distinct ks \<and> set ks = set (values_s s) \<longrightarrow>
             SetMetric_SerializeValue (s\<lparr>values_s := ks\<rparr>) = SetMetric_SerializeValue s))
   \<and> (distinct (values_s0 si) \<longrightarrow>
        distinct (values_s0 (SetMetric_Add_p0 si x))
        \<and> SetMetric_int_SerializeValue_p0 si
            = concat (map (\<lambda>el. CHR '':'' # showInt el)
                          (sorted_list_of_set (set (values_s0 si))))
        \<and> sorted_wrt (<) (slices_Sort (values_s0 si))
        \<and> set (slices_Sort (values_s0 si)) = set (values_s0 si)
        \<and> (distinct ki \<and> set ki = set (values_s0 si) \<longrightarrow>
             SetMetric_int_SerializeValue_p0 (si\<lparr>values_s0 := ki\<rparr>)
             = SetMetric_int_SerializeValue_p0 si))
   \<and> (distinct (values_s0 ss) \<longrightarrow>
        distinct (values_s0 (SetMetric_Add_p0 ss y))
        \<and> SetMetric_string_SerializeValue_p0 ss
            = concat (map (\<lambda>el. CHR '':'' # showInt (uint (ChecksumIEEE el)))
                          (sorted_list_of_set (set (values_s0 ss))))
        \<and> sorted_wrt (<) (slices_Sort (values_s0 ss))
        \<and> set (slices_Sort (values_s0 ss)) = set (values_s0 ss)
        \<and> (distinct kss \<and> set kss = set (values_s0 ss) \<longrightarrow>
             SetMetric_string_SerializeValue_p0 (ss\<lparr>values_s0 := kss\<rparr>)
             = SetMetric_string_SerializeValue_p0 ss))
   \<and> values_s0 (SetMetric_Add_p0 (NewSetMetric_p0 ''k'' 3 [] 0 ''b'') ''a'') = [''b'', ''a'']
   \<and> SetMetric_string_SerializeValue_p0
        (SetMetric_Add_p0 (NewSetMetric_p0 ''k'' 3 [] 0 ''b'') ''a'') = '':3904355907:1908338681''
   \<and> uint (ChecksumIEEE ''a'') = 3904355907
   \<and> uint (ChecksumIEEE ''b'') = 1908338681"
proof -
  have a: "v \<in> set (values_s s) \<longrightarrow> SetMetric_Add s (AInt v) = (s, None)"
    by (simp add: SetMetric_Add_def mapInsert_present)
  have b: "x \<in> set (values_s0 si) \<longrightarrow> SetMetric_Add_p0 si x = si"
    by (simp add: SetMetric_Add_p0_def mapInsert_present)
  have c: "y \<in> set (values_s0 ss) \<longrightarrow> SetMetric_Add_p0 ss y = ss"
    by (simp add: SetMetric_Add_p0_def mapInsert_present)
  have d: "distinct (values_s s) \<longrightarrow> distinct (values_s (fst (SetMetric_Add s val)))"
    by (cases val) (simp_all add: SetMetric_Add_def distinct_mapInsert)
  have e: "distinct (values_s0 si) \<longrightarrow> distinct (values_s0 (SetMetric_Add_p0 si x))"
    by (simp add: SetMetric_Add_p0_def distinct_mapInsert)
  have f: "distinct (values_s0 ss) \<longrightarrow> distinct (values_s0 (SetMetric_Add_p0 ss y))"
    by (simp add: SetMetric_Add_p0_def distinct_mapInsert)
  have g: "distinct (values_s s) \<and> distinct ks \<and> set ks = set (values_s s) \<longrightarrow>
             SetMetric_SerializeValue (s\<lparr>values_s := ks\<rparr>) = SetMetric_SerializeValue s"
    using SetMetric_SerializeValue_sorted [of s]
      SetMetric_SerializeValue_sorted [of "s\<lparr>values_s := ks\<rparr>"] by simp
  have h: "distinct (values_s0 si) \<and> distinct ki \<and> set ki = set (values_s0 si) \<longrightarrow>
             SetMetric_int_SerializeValue_p0 (si\<lparr>values_s0 := ki\<rparr>)
             = SetMetric_int_SerializeValue_p0 si"
    using SetMetric_int_SerializeValue_p0_sorted [of si]
      SetMetric_int_SerializeValue_p0_sorted [of "si\<lparr>values_s0 := ki\<rparr>"] by simp
  have i: "distinct (values_s0 ss) \<and> distinct kss \<and> set kss = set (values_s0 ss) \<longrightarrow>
             SetMetric_string_SerializeValue_p0 (ss\<lparr>values_s0 := kss\<rparr>)
             = SetMetric_string_SerializeValue_p0 ss"
    using SetMetric_string_SerializeValue_p0_sorted [of ss]
      SetMetric_string_SerializeValue_p0_sorted [of "ss\<lparr>values_s0 := kss\<rparr>"] by simp
  have p: "distinct (values_s s) \<longrightarrow>
        distinct (values_s (fst (SetMetric_Add s val)))
        \<and> SetMetric_SerializeValue s
            = concat (map (\<lambda>el. CHR '':'' # showInt el)
                          (sorted_list_of_set (set (values_s s))))
        \<and> sorted_wrt (<) (sortSlice (values_s s))
        \<and> set (sortSlice (values_s s)) = set (values_s s)
        \<and> (distinct ks \<and> set ks = set (values_s s) \<longrightarrow>
             SetMetric_SerializeValue (s\<lparr>values_s := ks\<rparr>) = SetMetric_SerializeValue s)"
    using d g SetMetric_SerializeValue_sorted [of s] by blast
  have q: "distinct (values_s0 si) \<longrightarrow>
        distinct (values_s0 (SetMetric_Add_p0 si x))
        \<and> SetMetric_int_SerializeValue_p0 si
            = concat (map (\<lambda>el. CHR '':'' # showInt el)
                          (sorted_list_of_set (set (values_s0 si))))
        \<and> sorted_wrt (<) (slices_Sort (values_s0 si))
        \<and> set (slices_Sort (values_s0 si)) = set (values_s0 si)
        \<and> (distinct ki \<and> set ki = set (values_s0 si) \<longrightarrow>
             SetMetric_int_SerializeValue_p0 (si\<lparr>values_s0 := ki\<rparr>)
             = SetMetric_int_SerializeValue_p0 si)"
    using e h SetMetric_int_SerializeValue_p0_sorted [of si] by blast
  have r: "distinct (values_s0 ss) \<longrightarrow>
        distinct (values_s0 (SetMetric_Add_p0 ss y))
        \<and> SetMetric_string_SerializeValue_p0 ss
            = concat (map (\<lambda>el. CHR '':'' # showInt (uint (ChecksumIEEE el)))
                          (sorted_list_of_set (set (values_s0 ss))))
        \<and> sorted_wrt (<) (slices_Sort (values_s0 ss))
        \<and> set (slices_Sort (values_s0 ss)) = set (values_s0 ss)
        \<and> (distinct kss \<and> set kss = set (values_s0 ss) \<longrightarrow>
             SetMetric_string_SerializeValue_p0 (ss\<lparr>values_s0 := kss\<rparr>)
             = SetMetric_string_SerializeValue_p0 ss)"
    using f i SetMetric_string_SerializeValue_p0_sorted [of ss] by blast
  show ?thesis
    by (intro conjI) (rule a b c p q r values_of_b_then_a set_of_b_then_a crc_a crc_b)+
qed

theorem Set_dedup_sorted_witness:
  "values_s (fst (SetMetric_Add (NewSetMetric ''k'' \<lparr>unit = ''second''\<rparr> [] 0 5) (AInt 3)))
     = [5, 3]
   \<and> SetMetric_Add (fst (SetMetric_Add (NewSetMetric ''k'' \<lparr>unit = ''second''\<rparr> [] 0 5) (AInt 3)))
       (AInt 5)
     = (fst (SetMetric_Add (NewSetMetric ''k'' \<lparr>unit = ''second''\<rparr> [] 0 5) (AInt 3)), None)
   \<and> SetMetric_SerializeValue
        (fst (SetMetric_Add (NewSetMetric ''k'' \<lparr>unit = ''second''\<rparr> [] 0 5) (AInt 3)))
     = '':3:5''
   \<and> sortSlice (values_s
        (fst (SetMetric_Add (NewSetMetric ''k'' \<lparr>unit = ''second''\<rparr> [] 0 5) (AInt 3))))
     = [3, 5]
   \<and> SetMetric_Add_p0 (SetMetric_Add_p0 (NewSetMetric_p0 ''k'' 3 [] 0 ''b'') ''a'') ''a''
     = SetMetric_Add_p0 (NewSetMetric_p0 ''k'' 3 [] 0 ''b'') ''a''
   \<and> slices_Sort (values_s0 (SetMetric_Add_p0 (NewSetMetric_p0 ''k'' 3 [] 0 ''b'') ''a''))
     = [''a'', ''b'']"
proof -
  let ?s = "fst (SetMetric_Add (NewSetMetric ''k'' \<lparr>unit = ''second''\<rparr> [] 0 5) (AInt 3))"
  let ?ss = "SetMetric_Add_p0 (NewSetMetric_p0 ''k'' 3 [] 0 ''b'') ''a''"
  have m1: "5 \<in> set (values_s ?s)" and d1: "distinct (values_s ?s)"
    by (simp_all add: values_5_3)
  have m2: "''a'' \<in> set (values_s0 ?ss)" and d2: "distinct (values_s0 ?ss)"
    by (simp_all add: values_of_b_then_a)
  have c: "sorted_list_of_set (set (values_s ?s)) = [3, 5]"
    unfolding values_5_3 by code_simp
  have l1: "sortSlice (values_s ?s) = [3, 5]"
    unfolding values_5_3 by code_simp
  have l2: "slices_Sort (values_s0 ?ss) = [''a'', ''b'']"
    unfolding values_of_b_then_a by code_simp
  have r: "concat (map (\<lambda>el. CHR '':'' # showInt el) [3, 5]) = '':3:5''"
    by code_simp
  note t = Set_dedup_sorted [where v = 5 and s = ?s and y = "''a''" and ss = ?ss]
  have u1: "SetMetric_Add ?s (AInt 5) = (?s, None)"
    by (rule mp [OF t [THEN conjunct1] m1])
  have u2: "SetMetric_Add_p0 ?ss ''a'' = ?ss"
    by (rule mp [OF t [THEN conjunct2, THEN conjunct2, THEN conjunct1] m2])
  have u3: "SetMetric_SerializeValue ?s
            = concat (map (\<lambda>el. CHR '':'' # showInt el)
                          (sorted_list_of_set (set (values_s ?s))))"
    by (rule mp [OF t [THEN conjunct2, THEN conjunct2, THEN conjunct2, THEN conjunct1] d1,
          THEN conjunct2, THEN conjunct1])
  from u3 have u4: "SetMetric_SerializeValue ?s = '':3:5''"
    by (simp only: c r)
  show ?thesis
    by (intro conjI) (rule values_5_3 u1 u2 u4 l1 l2)+
qed

text \<open>
  C5. Add on a Set metric with a value that is not an \<^verbatim>\<open>int\<close>, the element kind of
  every set of metrics.go, a string for one, fails: the type assertion panics with a
  TypeAssertionError naming the type found and the type expected, before anything is
  stored; the set and its serialization are what they were. Add returns without a panic
  only for an \<^verbatim>\<open>int\<close>. (In part_000 the argument of Add has the element type of the
  set and a value of the other kind is not an argument.)
\<close>

theorem Set_Add_mismatch:
  "(typeOf val \<noteq> TInt \<longrightarrow>
      SetMetric_Add s val = (s, Some (TypeAssertionError (typeOf val) TInt)))
   \<and> SetMetric_Add s (AString x) = (s, Some (TypeAssertionError TString TInt))
   \<and> values_s (fst (SetMetric_Add s (AString x))) = values_s s
   \<and> SetMetric_SerializeValue (fst (SetMetric_Add s (AString x))) = SetMetric_SerializeValue s
   \<and> (snd (SetMetric_Add s val) = None) = (typeOf val = TInt)"
  by (cases val) (simp_all add: SetMetric_Add_def)

theorem Set_Add_mismatch_witness:
  "typeOf (AString ''a'') \<noteq> TInt
   \<and> SetMetric_Add (NewSetMetric ''k'' \<lparr>unit = ''second''\<rparr> [] 0 5) (AString ''a'')
     = (NewSetMetric ''k'' \<lparr>unit = ''second''\<rparr> [] 0 5, Some (TypeAssertionError TString TInt))
   \<and> SetMetric_SerializeValue
        (fst (SetMetric_Add (NewSetMetric ''k'' \<lparr>unit = ''second''\<rparr> [] 0 5) (AString ''a'')))
     = '':5''"
proof -
  let ?s = "NewSetMetric ''k'' \<lparr>unit = ''second''\<rparr> [] 0 5"
  have t: "typeOf (AString ''a'') \<noteq> TInt" by simp
  have v: "SetMetric_SerializeValue ?s = '':5''" by code_simp
  from Set_Add_mismatch [where val = "AString ''a''" and s = ?s and x = "''a''"] t
  have "SetMetric_Add ?s (AString ''a'') = (?s, Some (TypeAssertionError TString TInt))
        \<and> SetMetric_SerializeValue (fst (SetMetric_Add ?s (AString ''a'')))
          = SetMetric_SerializeValue ?s"
    by simp
  with t v show ?thesis by simp
qed

section \<open>What Add leaves alone, and when it fails\<close>

text \<open>
  C7. No call of Add, on any of the four metrics and with any argument, changes the key,
  the unit, the tags or the timestamp of the metric, nor what GetKey, GetUnit, GetTags
  and GetTimestamp return.
\<close>

theorem Add_frame:
  "key (fst (CounterMetric_Add c val)) = key c
   \<and> unit_am (fst (CounterMetric_Add c val)) = unit_am c
   \<and> tags (fst (CounterMetric_Add c val)) = tags c
   \<and> timestamp (fst (CounterMetric_Add c val)) = timestamp c
   \<and> key (fst (DistributionMetric_Add d val)) = key d
   \<and> unit_am (fst (DistributionMetric_Add d val)) = unit_am d
   \<and> tags (fst (DistributionMetric_Add d val)) = tags d
   \<and> timestamp (fst (DistributionMetric_Add d val)) = timestamp d
   \<and> key (fst (GaugeMetric_Add g val)) = key g
   \<and> unit_am (fst (GaugeMetric_Add g val)) = unit_am g
   \<and> tags (fst (GaugeMetric_Add g val)) = tags g
   \<and> timestamp (fst (GaugeMetric_Add g val)) = timestamp g
   \<and> key (fst (SetMetric_Add s val)) = key s
   \<and> unit_am (fst (SetMetric_Add s val)) = unit_am s
   \<and> tags (fst (SetMetric_Add s val)) = tags s
   \<and> timestamp (fst (SetMetric_Add s val)) = timestamp s
   \<and> GetKey (fst (CounterMetric_Add c val)) = GetKey c
   \<and> GetUnit (fst (CounterMetric_Add c val)) = GetUnit c
   \<and> GetTags (fst (CounterMetric_Add c val)) = GetTags c
   \<and> GetTimestamp (fst (CounterMetric_Add c val)) = GetTimestamp c
   \<and> GetKey (fst (DistributionMetric_Add d val)) = GetKey d
   \<and> GetUnit (fst (DistributionMetric_Add d val)) = GetUnit d
   \<and> GetTags (fst (DistributionMetric_Add d val)) = GetTags d
   \<and> GetTimestamp (fst (DistributionMetric_Add d val)) = GetTimestamp d
   \<and> GetKey (fst (GaugeMetric_Add g val)) = GetKey g
   \<and> GetUnit (fst (GaugeMetric_Add g val)) = GetUnit g
   \<and> GetTags (fst (GaugeMetric_Add g val)) = GetTags g
   \<and> GetTimestamp (fst (GaugeMetric_Add g val)) = GetTimestamp g
   \<and> GetKey (fst (SetMetric_Add s val)) = GetKey s
   \<and> GetUnit (fst (SetMetric_Add s val)) = GetUnit s
   \<and> GetTags (fst (SetMetric_Add s val)) = GetTags s
   \<and> GetTimestamp (fst (SetMetric_Add s val)) = GetTimestamp s"
  by (cases val)
    (simp_all add: CounterMetric_Add_def DistributionMetric_Add_def GaugeMetric_Add_def
      SetMetric_Add_def GetKey_def GetUnit_def GetTags_def GetTimestamp_def)

theorem Add_frame_witness:
  "GetKey (fst (GaugeMetric_Add
       (NewGaugeMetric ''cpu'' (CustomUnit ''load'') [(''host'', ''a'')] 17 (Finite 5))
       (AFloat64 (Finite 1)))) = ''cpu''
   \<and> GetUnit (fst (GaugeMetric_Add
       (NewGaugeMetric ''cpu'' (CustomUnit ''load'') [(''host'', ''a'')] 17 (Finite 5))
       (AFloat64 (Finite 1)))) = ''load''
   \<and> GetTags (fst (GaugeMetric_Add
       (NewGaugeMetric ''cpu'' (CustomUnit ''load'') [(''host'', ''a'')] 17 (Finite 5))
       (AFloat64 (Finite 1)))) = [(''host'', ''a'')]
   \<and> GetTimestamp (fst (GaugeMetric_Add
       (NewGaugeMetric ''cpu'' (CustomUnit ''load'') [(''host'', ''a'')] 17 (Finite 5))
       (AFloat64 (Finite 1)))) = 17"
proof -
  let ?g = "NewGaugeMetric ''cpu'' (CustomUnit ''load'') [(''host'', ''a'')] 17 (Finite 5)"
  have u: "GetUnit ?g = ''load''" by code_simp
  have k: "GetKey ?g = ''cpu''" "GetTags ?g = [(''host'', ''a'')]" "GetTimestamp ?g = 17"
    by (simp_all add: GetKey_def GetTags_def GetTimestamp_def NewGaugeMetric_def)
  from Add_frame [where g = ?g and val = "AFloat64 (Finite 1)"] u k
  show ?thesis by simp
qed

text \<open>The same holds for the methods of part_000.\<close>

lemma Add_frame_p0:
  "abstractMetric_p0.truncate (CounterMetric_Add_p0 c v) = abstractMetric_p0.truncate c
   \<and> abstractMetric_p0.truncate (DistributionMetric_Add_p0 d v) = abstractMetric_p0.truncate d
   \<and> abstractMetric_p0.truncate (GaugeMetric_Add_p0 g v) = abstractMetric_p0.truncate g
   \<and> abstractMetric_p0.truncate (SetMetric_Add_p0 s x) = abstractMetric_p0.truncate s"
  by (simp add: CounterMetric_Add_p0_def DistributionMetric_Add_p0_def GaugeMetric_Add_p0_def
      SetMetric_Add_p0_def abstractMetric_p0.truncate_def)

text \<open>
  C10. Add on a Counter, a Gauge or a Distribution with a value of dynamic type
  \<^verbatim>\<open>float64\<close> returns without a panic; the failing branch of the type assertion is
  taken exactly by the values of another dynamic type.
\<close>

theorem Add_float64_total:
  "snd (CounterMetric_Add c (AFloat64 v)) = None
   \<and> snd (GaugeMetric_Add g (AFloat64 v)) = None
   \<and> snd (DistributionMetric_Add d (AFloat64 v)) = None
   \<and> (snd (CounterMetric_Add c val) = None) = (typeOf val = TFloat64)
   \<and> (snd (GaugeMetric_Add g val) = None) = (typeOf val = TFloat64)
   \<and> (snd (DistributionMetric_Add d val) = None) = (typeOf val = TFloat64)"
  by (cases val)
    (simp_all add: CounterMetric_Add_def DistributionMetric_Add_def GaugeMetric_Add_def)

theorem Add_float64_total_witness:
  "snd (CounterMetric_Add (NewCounterMetric ''n'' \<lparr>unit = ''second''\<rparr> [] 0 (Finite 2))
          (AFloat64 (Finite 3))) = None
   \<and> snd (GaugeMetric_Add (NewGaugeMetric ''n'' \<lparr>unit = ''second''\<rparr> [] 0 (Finite 2))
          (AFloat64 NaN)) = None
   \<and> snd (DistributionMetric_Add (NewDistributionMetric ''n'' \<lparr>unit = ''second''\<rparr> [] 0 (Finite 2))
          (AFloat64 PosInf)) = None"
  using Add_float64_total [where c = "NewCounterMetric ''n'' \<lparr>unit = ''second''\<rparr> [] 0 (Finite 2)"
      and v = "Finite 3"]
    Add_float64_total [where g = "NewGaugeMetric ''n'' \<lparr>unit = ''second''\<rparr> [] 0 (Finite 2)"
      and v = NaN]
    Add_float64_total [where d = "NewDistributionMetric ''n'' \<lparr>unit = ''second''\<rparr> [] 0 (Finite 2)"
      and v = PosInf]
  by blast

section \<open>Counter and Gauge: accumulation and serialization\<close>

lemma CounterMetric_Adds_value:
  "value_c (CounterMetric_Adds c vs) = foldl f64_add (value_c c) vs"
  unfolding CounterMetric_Adds_def
  by (induction vs arbitrary: c) (simp_all add: CounterMetric_Add_def)

lemma CounterMetric_Adds_p0_value:
  "value_c0 (CounterMetric_Adds_p0 c vs) = foldl f64_add (value_c0 c) vs"
  unfolding CounterMetric_Adds_p0_def
  by (induction vs arbitrary: c) (simp_all add: CounterMetric_Add_p0_def)

text \<open>The Counter of metrics.go: the value is the first observation with the later ones
  added in turn, in float64 arithmetic, and SerializeValue writes a colon and the
  \<^verbatim>\<open>%v\<close> of that value.\<close>

lemma Counter_metrics_go_conforms:
  "CounterMetric_SerializeValue (CounterMetric_Adds (NewCounterMetric k u tgs ts v) vs)
     = CHR '':'' # fmt_v (foldl f64_add v vs)"
  by (simp add: CounterMetric_SerializeValue_def CounterMetric_Adds_value NewCounterMetric_def)

lemma Counter_p0_serialization:
  "CounterMetric_SerializeValue_p0 (CounterMetric_Adds_p0 (NewCounterMetric_p0 k u tgs ts v) vs)
     = fmt_v (foldl f64_add v vs)"
  by (simp add: CounterMetric_SerializeValue_p0_def CounterMetric_Adds_p0_value
      NewCounterMetric_p0_def)

text \<open>
  C4. A Counter made with 2.0, after Add(3.0) and Add(-1.5), holds 3.5. SerializeValue
  of metrics.go returns \<^verbatim>\<open>:3.5\<close>, the colon included, as the claim says;
  SerializeValue of the Counter of part_000 returns \<^verbatim>\<open>3.5\<close>, without the colon.
\<close>

theorem Counter_p0_without_colon:
  "CounterMetric_SerializeValue_p0
     (CounterMetric_Adds_p0 (NewCounterMetric_p0 ''k'' 3 [] 0 (Finite 2))
        [Finite 3, Finite (- 3 / 2)]) = ''3.5''
   \<and> CounterMetric_SerializeValue
     (CounterMetric_Adds (NewCounterMetric ''k'' \<lparr>unit = ''second''\<rparr> [] 0 (Finite 2))
        [Finite 3, Finite (- 3 / 2)]) = '':3.5''"
  by code_simp

lemma GaugeMetric_Adds_count:
  "count_g (GaugeMetric_Adds g vs) = foldl (\<lambda>c v. f64_add c (Finite 1)) (count_g g) vs"
  unfolding GaugeMetric_Adds_def
  by (induction vs arbitrary: g) (simp_all add: GaugeMetric_Add_def)

lemma GaugeMetric_Adds_p0_count:
  "count_g0 (GaugeMetric_Adds_p0 g vs) = foldl (\<lambda>c v. f64_add c (Finite 1)) (count_g0 g) vs"
  unfolding GaugeMetric_Adds_p0_def
  by (induction vs arbitrary: g) (simp_all add: GaugeMetric_Add_p0_def)

text \<open>The count of a Gauge starts at the first observation, in both files, and each Add
  adds one to it: after the constructor alone it is the observation, not one.\<close>

lemma Gauge_count_from_value:
  "count_g (GaugeMetric_Adds (NewGaugeMetric k u tgs ts v) vs)
     = foldl (\<lambda>c v. f64_add c (Finite 1)) v vs
   \<and> count_g0 (GaugeMetric_Adds_p0 (NewGaugeMetric_p0 k u0 tgs ts0 v) vs)
     = foldl (\<lambda>c v. f64_add c (Finite 1)) v vs"
  by (simp add: GaugeMetric_Adds_count GaugeMetric_Adds_p0_count NewGaugeMetric_def
      NewGaugeMetric_p0_def)

lemma Gauge_5_1_9_state:
  "GaugeMetric_Adds (NewGaugeMetric ''k'' \<lparr>unit = ''second''\<rparr> [] 0 (Finite 5))
       [Finite 1, Finite 9]
   = \<lparr>key = ''k'', unit_am = \<lparr>unit = ''second''\<rparr>, tags = [], timestamp = 0,
      last_g = Finite 9, min_g = Finite 1, max_g = Finite 9, sum_g = Finite 15,
      count_g = Finite 7\<rparr>"
  by code_simp

lemma Gauge_5_1_9_serialized:
  "GaugeMetric_SerializeValue
     (GaugeMetric_Adds (NewGaugeMetric ''k'' \<lparr>unit = ''second''\<rparr> [] 0 (Finite 5))
        [Finite 1, Finite 9]) = '':9:1:9:15:7''"
  by code_simp

lemma Gauge_5_1_9_serialized_p0:
  "GaugeMetric_SerializeValue_p0
     (GaugeMetric_Adds_p0 (NewGaugeMetric_p0 ''k'' 3 [] 0 (Finite 5)) [Finite 1, Finite 9])
   = '':9:1:9:15:7''"
  by code_simp

lemma Gauge_5_initial_count:
  "count_g (NewGaugeMetric ''k'' \<lparr>unit = ''second''\<rparr> [] 0 (Finite 5)) = Finite 5"
  by (simp add: NewGaugeMetric_def)

text \<open>
  C1. A Gauge made with 5.0, after Add(1.0) and Add(9.0), has last 9, min 1, max 9 and
  sum 15, as the claim says, but its count is 7 and not 3, and SerializeValue returns
  \<^verbatim>\<open>:9:1:9:15:7\<close>, in metrics.go and in part_000: the constructor stores the first
  observation as the count, and right after it the count is 5 and not 1.
\<close>

theorem Gauge_count_starts_at_value:
  "GaugeMetric_Adds (NewGaugeMetric ''k'' \<lparr>unit = ''second''\<rparr> [] 0 (Finite 5))
       [Finite 1, Finite 9]
   = \<lparr>key = ''k'', unit_am = \<lparr>unit = ''second''\<rparr>, tags = [], timestamp = 0,
      last_g = Finite 9, min_g = Finite 1, max_g = Finite 9, sum_g = Finite 15,
      count_g = Finite 7\<rparr>
   \<and> GaugeMetric_SerializeValue
     (GaugeMetric_Adds (NewGaugeMetric ''k'' \<lparr>unit = ''second''\<rparr> [] 0 (Finite 5))
        [Finite 1, Finite 9]) = '':9:1:9:15:7''
   \<and> GaugeMetric_SerializeValue_p0
     (GaugeMetric_Adds_p0 (NewGaugeMetric_p0 ''k'' 3 [] 0 (Finite 5)) [Finite 1, Finite 9])
     = '':9:1:9:15:7''
   \<and> count_g (NewGaugeMetric ''k'' \<lparr>unit = ''second''\<rparr> [] 0 (Finite 5)) = Finite 5"
  by (intro conjI)
    (rule Gauge_5_1_9_state Gauge_5_1_9_serialized Gauge_5_1_9_serialized_p0
      Gauge_5_initial_count)+

end
